theory Spec2Isabelle
  imports Main "HOL-Library.Word"
begin

section \<open>The C boundary of FLIP: \<^verbatim>\<open>flip_capi.h\<close> and \<^verbatim>\<open>flip_capi.cpp\<close>\<close>

subsection \<open>Scalars\<close>

text \<open>
  A C \<^verbatim>\<open>float\<close> is carried as its 32-bit pattern: the adapter only copies floats,
  so "bit-identical" is equality of these words. The literal \<^verbatim>\<open>0.0f\<close> is the word 0.
  A C \<^verbatim>\<open>int\<close> is a 32-bit word, read as two's complement by \<open>sint\<close>.
\<close>

type_synonym float32 = "32 word"
type_synonym c_int = "32 word"

subsection \<open>Memory\<close>

text \<open>
  Float storage is a list of blocks; a block that was released is \<open>None\<close>. A
  \<^verbatim>\<open>float*\<close> is a block index and an offset into it, or null (\<open>None\<close>). Each block
  records how it came to be: storage the caller provides, or an array made by
  \<^verbatim>\<open>new float[n]\<close>. The variables of type \<^verbatim>\<open>float*\<close> whose address the caller passes as
  \<^verbatim>\<open>float**\<close> are the list \<open>slots\<close>; such an address is an index into it, or null.
  What C leaves undefined (a read or write outside any live block, a null
  dereference, a release of something \<^verbatim>\<open>new[]\<close> did not return) is a \<open>fault\<close>.
\<close>

datatype fault = NullPointer | InvalidRead | InvalidWrite | InvalidFree | BadDimensions

datatype origin = CallerOwned | NewArray

type_synonym ptr = "nat \<times> nat"

record memory =
  blocks :: "(origin \<times> float32 list) option list"
  slots :: "ptr option list"

definition lookup_block :: "memory \<Rightarrow> nat \<Rightarrow> (origin \<times> float32 list) option" where
  "lookup_block mem b = (if b < length (blocks mem) then blocks mem ! b else None)"

definition load_float :: "memory \<Rightarrow> ptr \<Rightarrow> float32 option" where
  "load_float mem p =
     (case p of (b, off) \<Rightarrow>
        (case lookup_block mem b of
           None \<Rightarrow> None
         | Some (org, cells) \<Rightarrow> if off < length cells then Some (cells ! off) else None))"

definition load_buffer :: "memory \<Rightarrow> ptr option \<Rightarrow> nat \<Rightarrow> float32 list option" where
  "load_buffer mem q n =
     (case q of
        None \<Rightarrow> None
      | Some (b, off) \<Rightarrow>
          (case lookup_block mem b of
             None \<Rightarrow> None
           | Some (org, cells) \<Rightarrow>
               if off + n \<le> length cells then Some (take n (drop off cells)) else None))"

definition store_float :: "memory \<Rightarrow> ptr \<Rightarrow> float32 \<Rightarrow> fault + memory" where
  "store_float mem p v =
     (case p of (b, off) \<Rightarrow>
        (case lookup_block mem b of
           None \<Rightarrow> Inl InvalidWrite
         | Some (org, cells) \<Rightarrow>
             if off < length cells
             then Inr (mem\<lparr>blocks := (blocks mem)[b := Some (org, cells[off := v])]\<rparr>)
             else Inl InvalidWrite))"

definition in_buffer :: "ptr \<Rightarrow> ptr option \<Rightarrow> nat \<Rightarrow> bool" where
  "in_buffer p q n =
     (case q of
        None \<Rightarrow> False
      | Some (b, off) \<Rightarrow> fst p = b \<and> off \<le> snd p \<and> snd p < off + n)"

subsection \<open>The parameter records\<close>

text \<open>
  \<^verbatim>\<open>FlipParameters\<close> of \<^verbatim>\<open>flip_capi.h\<close>. The field \<^verbatim>\<open>const char* tonemapper\<close> is
  \<open>None\<close> for a null pointer and otherwise the text it addresses, up to its terminator.
\<close>

record FlipParameters =
  ppd :: float32
  start_exposure :: float32
  stop_exposure :: float32
  num_exposures :: c_int
  tonemapper :: "string option"

text \<open>
  \<^verbatim>\<open>FLIP::Parameters\<close>, the Engine's own record (declared in \<^verbatim>\<open>FLIP.h\<close>); its
  \<^verbatim>\<open>tonemapper\<close> is a \<^verbatim>\<open>std::string\<close>.
\<close>

record Parameters =
  PPD :: float32
  startExposure :: float32
  stopExposure :: float32
  numExposures :: c_int
  tonemapper :: string

subsection \<open>The Engine\<close>

text \<open>
  Modelled from the spec: \<^verbatim>\<open>FLIP.h\<close>, the header of the wrapped library, is missing.
  What the adapter uses of it is a parameter of the model, an \<open>engine\<close>:
  \<^item> \<open>calculatePPD\<close>: \<^verbatim>\<open>FLIP::calculatePPD\<close>; by sections 4.1 and 6 of the
    specification a pure function of its three floats, with no side effect;
  \<^item> \<open>defaultParameters\<close>: the value of a default-constructed \<^verbatim>\<open>FLIP::Parameters\<close>;
  \<^item> \<open>errorSample\<close>: the float the Engine stores at index \<open>i\<close> of the output buffer,
    from the two images, the dimensions, the HDR flag, the parameters and the
    colour-map flag;
  \<^item> \<open>meanError\<close>: the mean the Engine reports for the same inputs.
\<close>

record engine =
  calculatePPD :: "float32 \<Rightarrow> float32 \<Rightarrow> float32 \<Rightarrow> float32"
  defaultParameters :: Parameters
  errorSample :: "float32 list \<Rightarrow> float32 list \<Rightarrow> int \<Rightarrow> int \<Rightarrow> bool \<Rightarrow> Parameters \<Rightarrow> bool \<Rightarrow> nat \<Rightarrow> float32"
  meanError :: "float32 list \<Rightarrow> float32 list \<Rightarrow> int \<Rightarrow> int \<Rightarrow> bool \<Rightarrow> Parameters \<Rightarrow> float32"

text \<open>
  Modelled from the spec: the pointer-based \<^verbatim>\<open>FLIP::evaluate\<close> is in \<^verbatim>\<open>FLIP.h\<close>, which
  is missing; its effect on memory follows sections 3 and 4.2 (steps 2 and 3) of the
  specification. The Engine reads the two images, each \<open>3 \<times> width \<times> height\<close> floats;
  it allocates the output buffer, \<open>width \<times> height\<close> floats in grayscale mode and
  \<open>3 \<times> width \<times> height\<close> in colour-mapped mode, fills it, and writes its address
  through the output pointer slot; it writes the mean into the accumulator if the
  mean is requested. Zero or negative dimensions, input pointers that do not
  address that many floats, and a null or invalid output slot are left undefined
  by the specification: they are faults here. The mutable mean accumulator is
  passed in and returned.
\<close>

definition FLIP_evaluate ::
  "engine \<Rightarrow> ptr option \<Rightarrow> ptr option \<Rightarrow> c_int \<Rightarrow> c_int \<Rightarrow> bool \<Rightarrow> Parameters \<Rightarrow> bool \<Rightarrow> bool
     \<Rightarrow> float32 \<Rightarrow> nat option \<Rightarrow> memory \<Rightarrow> fault + (float32 \<times> memory)" where
  "FLIP_evaluate E reference test width height useHDR params applyColorMap computeMean
     accumulator outputSlot mem =
     (if sint width \<le> 0 \<or> sint height \<le> 0 then Inl BadDimensions
      else
        let n = nat (sint width * sint height) in
        (case load_buffer mem reference (3 * n) of
           None \<Rightarrow> Inl InvalidRead
         | Some r \<Rightarrow>
             (case load_buffer mem test (3 * n) of
                None \<Rightarrow> Inl InvalidRead
              | Some t \<Rightarrow>
                  let out = map (errorSample E r t (sint width) (sint height) useHDR params
                                   applyColorMap)
                                [0 ..< (if applyColorMap then 3 * n else n)];
                      mean = (if computeMean
                              then meanError E r t (sint width) (sint height) useHDR params
                              else accumulator)
                  in (case outputSlot of
                        None \<Rightarrow> Inl NullPointer
                      | Some s \<Rightarrow>
                          if s < length (slots mem)
                          then Inr (mean,
                                 mem\<lparr>blocks := blocks mem @ [Some (NewArray, out)],
                                     slots := (slots mem)[s := Some (length (blocks mem), 0)]\<rparr>)
                          else Inl InvalidWrite))))"

subsection \<open>The exported functions\<close>

text \<open>
  \<^verbatim>\<open>flip_calculate_ppd\<close> (\<^verbatim>\<open>flip_capi.cpp\<close>, lines 13 to 19) returns what the Engine
  computes. It is given the memory and returns it, so that its lack of effects can
  be stated.
\<close>

definition flip_calculate_ppd ::
  "engine \<Rightarrow> float32 \<Rightarrow> float32 \<Rightarrow> float32 \<Rightarrow> memory \<Rightarrow> float32 \<times> memory" where
  "flip_calculate_ppd E viewing_distance resolution_x monitor_width mem =
     (calculatePPD E viewing_distance resolution_x monitor_width, mem)"

text \<open>
  Lines 34 to 44 of \<^verbatim>\<open>flip_evaluate\<close>: the local \<^verbatim>\<open>FLIP::Parameters params\<close> starts
  default-constructed; a non-null record overwrites four fields, and the tonemapper
  only when its pointer is non-null.
\<close>

definition flip_evaluate_params :: "engine \<Rightarrow> FlipParameters option \<Rightarrow> Parameters" where
  "flip_evaluate_params E parameters =
     (let params = defaultParameters E in
      case parameters of
        None \<Rightarrow> params
      | Some p \<Rightarrow>
          let params = params\<lparr>PPD := ppd p,
                              startExposure := start_exposure p,
                              stopExposure := stop_exposure p,
                              numExposures := num_exposures p\<rparr>
          in (case FlipParameters.tonemapper p of
                None \<Rightarrow> params
              | Some name \<Rightarrow> params\<lparr>Parameters.tonemapper := name\<rparr>))"

text \<open>
  \<^verbatim>\<open>flip_evaluate\<close> (lines 21 to 66): translate the parameters, start the accumulator at
  \<^verbatim>\<open>0.0f\<close>, call the Engine with the three flags compared against zero, then store the
  accumulator through \<^verbatim>\<open>mean_error\<close> if the mean was requested and the pointer is not
  null.
\<close>

definition flip_evaluate ::
  "engine \<Rightarrow> ptr option \<Rightarrow> ptr option \<Rightarrow> c_int \<Rightarrow> c_int \<Rightarrow> c_int \<Rightarrow> FlipParameters option
     \<Rightarrow> c_int \<Rightarrow> c_int \<Rightarrow> ptr option \<Rightarrow> nat option \<Rightarrow> memory \<Rightarrow> fault + memory" where
  "flip_evaluate E reference test width height use_hdr parameters apply_magma_map
     compute_mean_error mean_error error_map mem =
     (let params = flip_evaluate_params E parameters;
          meanFLIPError = 0
      in case FLIP_evaluate E reference test width height (use_hdr \<noteq> 0) params
                (apply_magma_map \<noteq> 0) (compute_mean_error \<noteq> 0) meanFLIPError error_map mem of
           Inl e \<Rightarrow> Inl e
         | Inr (meanFLIPError, mem1) \<Rightarrow>
             if compute_mean_error \<noteq> 0
             then (case mean_error of
                     None \<Rightarrow> Inr mem1
                   | Some dest \<Rightarrow> store_float mem1 dest meanFLIPError)
             else Inr mem1)"

text \<open>
  \<^verbatim>\<open>flip_free\<close> (lines 68 to 73): nothing for a null pointer, \<^verbatim>\<open>delete[]\<close> otherwise.
  \<^verbatim>\<open>delete[]\<close> is defined only for the address \<^verbatim>\<open>new[]\<close> returned (offset 0 of a live
  \<open>NewArray\<close> block).
\<close>

definition flip_free :: "ptr option \<Rightarrow> memory \<Rightarrow> fault + memory" where
  "flip_free ptr mem =
     (case ptr of
        None \<Rightarrow> Inr mem
      | Some (b, off) \<Rightarrow>
          (case lookup_block mem b of
             Some (NewArray, cells) \<Rightarrow>
               if off = 0 then Inr (mem\<lparr>blocks := (blocks mem)[b := None]\<rparr>)
               else Inl InvalidFree
           | _ \<Rightarrow> Inl InvalidFree))"

text \<open>A caller making the same call \<open>n\<close> times in a row, stopping at the first fault.\<close>

primrec repeat_calls :: "nat \<Rightarrow> (memory \<Rightarrow> fault + memory) \<Rightarrow> memory \<Rightarrow> fault + memory" where
  "repeat_calls 0 f mem = Inr mem"
| "repeat_calls (Suc n) f mem =
     (case f mem of Inl e \<Rightarrow> Inl e | Inr mem' \<Rightarrow> repeat_calls n f mem')"

subsection \<open>Concrete inputs\<close>

text \<open>
  The defaults as \<^verbatim>\<open>flip_capi.h\<close> documents them: a PPD of about 67 (the float
  67.0206, for 0.7 m distance, 3840 pixels and 0.7 m width), \<^verbatim>\<open>INFINITY\<close> for both
  exposures, \<open>-1\<close> exposures, and the tonemapper \<^verbatim>\<open>"aces"\<close>.
\<close>

definition documented_defaults :: Parameters where
  "documented_defaults =
     \<lparr>PPD = 0x42860A92, startExposure = 0x7F800000, stopExposure = 0x7F800000,
      numExposures = - 1, tonemapper = ''aces''\<rparr>"

text \<open>
  One Engine to run the model on: it has the documented defaults, reports the error 0
  for two identical images and 1 (\<^verbatim>\<open>0x3F800000\<close>) otherwise, and a constant PPD. The
  theorems below hold for every Engine; this one only supplies concrete runs.
\<close>

definition sample_engine :: engine where
  "sample_engine =
     \<lparr>calculatePPD = (\<lambda>viewing_distance resolution_x monitor_width. 0x42860A92),
      defaultParameters = documented_defaults,
      errorSample = (\<lambda>r t w h hdr ps colour i. if r = t then 0 else 0x3F800000),
      meanError = (\<lambda>r t w h hdr ps. if r = t then 0 else 0x3F800000)\<rparr>"

text \<open>
  A caller's memory for a 1 by 1 image: block 0 is the reference image and block 1 the
  test image (three floats 0.5 each), block 2 is one float holding the sentinel -1.0
  where a mean can be stored, and there is one \<^verbatim>\<open>float*\<close> variable for the error map.
\<close>

definition sample_memory :: memory where
  "sample_memory =
     \<lparr>blocks = [Some (CallerOwned, [0x3F000000, 0x3F000000, 0x3F000000]),
                Some (CallerOwned, [0x3F000000, 0x3F000000, 0x3F000000]),
                Some (CallerOwned, [0xBF800000])],
      slots = [None]\<rparr>"

text \<open>
  The same memory with a test image that differs from the reference image in its
  last float (0.25 for 0.5), so that the Engine's mean is not 0.
\<close>

definition unequal_memory :: memory where
  "unequal_memory =
     \<lparr>blocks = [Some (CallerOwned, [0x3F000000, 0x3F000000, 0x3F000000]),
                Some (CallerOwned, [0x3F000000, 0x3F000000, 0x3E800000]),
                Some (CallerOwned, [0xBF800000])],
      slots = [None]\<rparr>"

section \<open>Parameter translation\<close>

text \<open>
  C4. For every non-null \<^verbatim>\<open>FlipParameters\<close> record, the fields \<^verbatim>\<open>ppd\<close>,
  \<^verbatim>\<open>start_exposure\<close>, \<^verbatim>\<open>stop_exposure\<close> and \<^verbatim>\<open>num_exposures\<close> reach the Engine's
  parameter record unchanged, whatever their values: nothing is clamped, validated
  or reinterpreted.
\<close>

theorem flip_evaluate_forwards_fields:
  "PPD (flip_evaluate_params E (Some p)) = ppd p
   \<and> startExposure (flip_evaluate_params E (Some p)) = start_exposure p
   \<and> stopExposure (flip_evaluate_params E (Some p)) = stop_exposure p
   \<and> numExposures (flip_evaluate_params E (Some p)) = num_exposures p"
  by (simp add: flip_evaluate_params_def Let_def split: option.split)


text \<open>
  C3, as amended. For every non-null record whose tonemapper pointer is null, the
  tonemapper handed to the Engine is the Engine's default.
\<close>

theorem flip_evaluate_absent_tonemapper:
  assumes "FlipParameters.tonemapper p = None"
  shows "Parameters.tonemapper (flip_evaluate_params E (Some p))
           = Parameters.tonemapper (defaultParameters E)"
  using assms by (simp add: flip_evaluate_params_def Let_def)

theorem flip_evaluate_absent_tonemapper_witness:
  "Parameters.tonemapper
     (flip_evaluate_params sample_engine
        (Some \<lparr>ppd = 0x42000000, start_exposure = 0, stop_exposure = 0x40000000,
               num_exposures = 2, tonemapper = None\<rparr>)) = ''aces''"
proof -
  have h: "FlipParameters.tonemapper
             \<lparr>ppd = 0x42000000, start_exposure = 0, stop_exposure = 0x40000000,
              num_exposures = 2, tonemapper = None\<rparr> = None"
    by simp
  show ?thesis
    using flip_evaluate_absent_tonemapper [OF h, of sample_engine]
    by (simp add: sample_engine_def documented_defaults_def)
qed

text \<open>
  C3 as stated fails for a tonemapper that is empty but not absent: a non-null
  pointer to the empty text passes the null test of line 41, and line 42 copies the
  empty string over the Engine's default \<^verbatim>\<open>"aces"\<close>.
\<close>

theorem flip_evaluate_empty_tonemapper_copied:
  "Parameters.tonemapper
     (flip_evaluate_params sample_engine
        (Some \<lparr>ppd = 0x42860A92, start_exposure = 0x7F800000, stop_exposure = 0x7F800000,
               num_exposures = - 1, tonemapper = Some ''''\<rparr>)) = ''''
   \<and> Parameters.tonemapper (defaultParameters sample_engine) = ''aces''"
  by (simp add: flip_evaluate_params_def Let_def sample_engine_def documented_defaults_def)

text \<open>
  C2. A call with a null parameter pointer and a call with a record whose every
  field holds the Engine's default hand the Engine the same parameter record, its
  default-constructed one, and so return the same result, for all images and flags.
\<close>

theorem flip_evaluate_null_parameters:
  assumes "ppd p = PPD (defaultParameters E)"
      and "start_exposure p = startExposure (defaultParameters E)"
      and "stop_exposure p = stopExposure (defaultParameters E)"
      and "num_exposures p = numExposures (defaultParameters E)"
      and "FlipParameters.tonemapper p = Some (Parameters.tonemapper (defaultParameters E))"
  shows "flip_evaluate_params E None = defaultParameters E
       \<and> flip_evaluate_params E (Some p) = defaultParameters E
       \<and> flip_evaluate E reference test width height use_hdr (Some p) apply_magma_map
           compute_mean_error mean_error error_map mem
         = flip_evaluate E reference test width height use_hdr None apply_magma_map
             compute_mean_error mean_error error_map mem"
proof -
  have none: "flip_evaluate_params E None = defaultParameters E"
    by (simp add: flip_evaluate_params_def)
  have some: "flip_evaluate_params E (Some p) = defaultParameters E"
    using assms by (simp add: flip_evaluate_params_def Let_def)
  show ?thesis
    by (simp add: none some flip_evaluate_def)
qed

theorem flip_evaluate_null_parameters_witness:
  "flip_evaluate_params sample_engine
     (Some \<lparr>ppd = 0x42860A92, start_exposure = 0x7F800000, stop_exposure = 0x7F800000,
            num_exposures = - 1, tonemapper = Some ''aces''\<rparr>) = documented_defaults
   \<and> flip_evaluate sample_engine (Some (0, 0)) (Some (1, 0)) 1 1 1
        (Some \<lparr>ppd = 0x42860A92, start_exposure = 0x7F800000, stop_exposure = 0x7F800000,
               num_exposures = - 1, tonemapper = Some ''aces''\<rparr>) 1 1 (Some (2, 0)) (Some 0)
        sample_memory
      = flip_evaluate sample_engine (Some (0, 0)) (Some (1, 0)) 1 1 1 None 1 1 (Some (2, 0))
          (Some 0) sample_memory"
  using flip_evaluate_null_parameters
    [of "\<lparr>ppd = 0x42860A92, start_exposure = 0x7F800000, stop_exposure = 0x7F800000,
          num_exposures = - 1, tonemapper = Some ''aces''\<rparr>" sample_engine
        "Some (0, 0)" "Some (1, 0)" 1 1 1 1 1 "Some (2, 0)" "Some 0" sample_memory]
  by (simp add: sample_engine_def documented_defaults_def)

section \<open>The flags\<close>

text \<open>
  C10. The flags \<^verbatim>\<open>use_hdr\<close>, \<^verbatim>\<open>apply_magma_map\<close> and \<^verbatim>\<open>compute_mean_error\<close> count only
  as zero or non-zero: two calls whose flags agree on that, all else equal, give the
  same result.
\<close>

theorem flip_evaluate_flags_zero_or_not:
  assumes "(use_hdr = 0) = (use_hdr' = 0)"
      and "(apply_magma_map = 0) = (apply_magma_map' = 0)"
      and "(compute_mean_error = 0) = (compute_mean_error' = 0)"
  shows "flip_evaluate E reference test width height use_hdr parameters apply_magma_map
           compute_mean_error mean_error error_map mem
         = flip_evaluate E reference test width height use_hdr' parameters apply_magma_map'
             compute_mean_error' mean_error error_map mem"
proof -
  have hdr: "(use_hdr \<noteq> 0) = (use_hdr' \<noteq> 0)"
    using assms(1) by simp
  have magma: "(apply_magma_map \<noteq> 0) = (apply_magma_map' \<noteq> 0)"
    using assms(2) by simp
  have mean: "(compute_mean_error \<noteq> 0) = (compute_mean_error' \<noteq> 0)"
    using assms(3) by simp
  show ?thesis
    unfolding flip_evaluate_def hdr magma mean by (rule refl)
qed

theorem flip_evaluate_flags_zero_or_not_witness:
  "flip_evaluate sample_engine (Some (0, 0)) (Some (1, 0)) 1 1 1 None 0 5 (Some (2, 0)) (Some 0)
     sample_memory
   = flip_evaluate sample_engine (Some (0, 0)) (Some (1, 0)) 1 1 2 None 0 (- 1) (Some (2, 0))
       (Some 0) sample_memory"
proof -
  have h1: "((1 :: c_int) = 0) = ((2 :: c_int) = 0)" by simp
  have h2: "((0 :: c_int) = 0) = ((0 :: c_int) = 0)" by simp
  have h3: "((5 :: c_int) = 0) = ((- 1 :: c_int) = 0)" by simp
  show ?thesis
    by (rule flip_evaluate_flags_zero_or_not [OF h1 h2 h3])
qed

section \<open>Release\<close>

text \<open>
  C5. \<^verbatim>\<open>flip_free\<close> on a null pointer does nothing: it releases no block, changes
  nothing in memory and does not fault, however many times it is called.
\<close>

theorem flip_free_null_noop:
  "repeat_calls n (flip_free None) mem = Inr mem"
  by (induction n) (simp_all add: flip_free_def)

section \<open>Pixels per degree\<close>

text \<open>
  C7. \<^verbatim>\<open>flip_calculate_ppd\<close> has no effect on memory and its result does not depend on
  the memory it runs in: a second call with the same three inputs, after the first
  or in any other state, returns the same bits.
\<close>

theorem flip_calculate_ppd_pure:
  "snd (flip_calculate_ppd E viewing_distance resolution_x monitor_width mem) = mem
   \<and> fst (flip_calculate_ppd E viewing_distance resolution_x monitor_width mem')
       = fst (flip_calculate_ppd E viewing_distance resolution_x monitor_width mem)
   \<and> flip_calculate_ppd E viewing_distance resolution_x monitor_width
         (snd (flip_calculate_ppd E viewing_distance resolution_x monitor_width mem))
       = flip_calculate_ppd E viewing_distance resolution_x monitor_width mem"
  by (simp add: flip_calculate_ppd_def)

text \<open>
  C8. For every input triple \<^verbatim>\<open>flip_calculate_ppd\<close> returns exactly what the Engine's
  \<^verbatim>\<open>calculatePPD\<close> returns for it, with no check of its own; a zero viewing distance
  is forwarded like any other value.
\<close>

theorem flip_calculate_ppd_forwards:
  "fst (flip_calculate_ppd E viewing_distance resolution_x monitor_width mem)
     = calculatePPD E viewing_distance resolution_x monitor_width
   \<and> fst (flip_calculate_ppd E 0 resolution_x monitor_width mem)
       = calculatePPD E 0 resolution_x monitor_width"
  by (simp add: flip_calculate_ppd_def)

section \<open>The Engine call and the caller's memory\<close>

lemma FLIP_evaluate_result:
  assumes "FLIP_evaluate E reference test width height useHDR params applyColorMap computeMean
             accumulator outputSlot mem = Inr (mean, mem1)"
  shows "\<exists>r t s. 0 < sint width \<and> 0 < sint height
           \<and> load_buffer mem reference (3 * nat (sint width * sint height)) = Some r
           \<and> load_buffer mem test (3 * nat (sint width * sint height)) = Some t
           \<and> outputSlot = Some s \<and> s < length (slots mem)
           \<and> mean = (if computeMean
                      then meanError E r t (sint width) (sint height) useHDR params
                      else accumulator)
           \<and> mem1 = mem\<lparr>blocks := blocks mem @
                        [Some (NewArray,
                           map (errorSample E r t (sint width) (sint height) useHDR params
                                  applyColorMap)
                               [0 ..< (if applyColorMap
                                       then 3 * nat (sint width * sint height)
                                       else nat (sint width * sint height))])],
                      slots := (slots mem)[s := Some (length (blocks mem), 0)]\<rparr>"
  using assms unfolding FLIP_evaluate_def
  by (auto simp: Let_def split: if_splits option.splits)

lemma flip_evaluate_steps:
  assumes "flip_evaluate E reference test width height use_hdr parameters apply_magma_map
             compute_mean_error mean_error error_map mem = Inr mem'"
  shows "\<exists>mean mem1.
           FLIP_evaluate E reference test width height (use_hdr \<noteq> 0)
             (flip_evaluate_params E parameters) (apply_magma_map \<noteq> 0)
             (compute_mean_error \<noteq> 0) 0 error_map mem = Inr (mean, mem1)
           \<and> (case mean_error of
                 None \<Rightarrow> mem' = mem1
               | Some dest \<Rightarrow>
                   if compute_mean_error \<noteq> 0 then store_float mem1 dest mean = Inr mem'
                   else mem' = mem1)"
  using assms unfolding flip_evaluate_def
  by (auto simp: Let_def split: sum.splits option.splits if_splits)

lemma lookup_block_extend:
  "lookup_block mem b = Some x \<Longrightarrow>
   lookup_block (mem\<lparr>blocks := blocks mem @ [y], slots := ss\<rparr>) b = Some x"
  by (auto simp: lookup_block_def nth_append split: if_splits)


lemma lookup_block_live:
  "lookup_block mem b = Some x \<Longrightarrow> b < length (blocks mem)"
  by (simp add: lookup_block_def split: if_splits)

lemma load_float_extend:
  assumes "load_float mem p = Some v"
  shows "load_float (mem\<lparr>blocks := blocks mem @ [y], slots := ss\<rparr>) p = Some v"
proof (cases p)
  case (Pair b off)
  from assms Pair obtain org cells where
    blk: "lookup_block mem b = Some (org, cells)" and off: "off < length cells"
    and v: "v = cells ! off"
    by (auto simp: load_float_def split: option.splits if_splits)
  from lookup_block_extend [OF blk] off v Pair show ?thesis
    by (simp add: load_float_def)
qed

lemma load_buffer_extend:
  assumes "load_buffer mem q n = Some xs"
  shows "load_buffer (mem\<lparr>blocks := blocks mem @ [y], slots := ss\<rparr>) q n = Some xs"
proof -
  from assms obtain b off org cells where
    q: "q = Some (b, off)" and blk: "lookup_block mem b = Some (org, cells)"
    and len: "off + n \<le> length cells" and xs: "xs = take n (drop off cells)"
    by (auto simp: load_buffer_def split: option.splits if_splits)
  from lookup_block_extend [OF blk] q len xs show ?thesis
    by (simp add: load_buffer_def)
qed

lemma load_buffer_live:
  "load_buffer mem (Some (b, off)) n = Some xs \<Longrightarrow> b < length (blocks mem)"
  by (auto simp: load_buffer_def dest: lookup_block_live split: option.splits)

lemma store_float_result:
  assumes "store_float mem (b, off) v = Inr mem'"
  shows "\<exists>org cells. lookup_block mem b = Some (org, cells) \<and> off < length cells
           \<and> mem' = mem\<lparr>blocks := (blocks mem)[b := Some (org, cells[off := v])]\<rparr>"
  using assms by (auto simp: store_float_def split: option.splits if_splits)

lemma lookup_block_update:
  "lookup_block (mem\<lparr>blocks := (blocks mem)[b := x]\<rparr>) b' =
     (if b' = b \<and> b < length (blocks mem) then x else lookup_block mem b')"
  by (auto simp: lookup_block_def)

lemma store_float_slots:
  "store_float mem p v = Inr mem' \<Longrightarrow> slots mem' = slots mem"
  by (cases p) (auto dest!: store_float_result)

lemma store_float_load_same:
  assumes "store_float mem p v = Inr mem'"
  shows "load_float mem' p = Some v"
proof (cases p)
  case (Pair b off)
  from store_float_result [OF assms [unfolded Pair]] obtain org cells where
    blk: "lookup_block mem b = Some (org, cells)" and off: "off < length cells"
    and mem': "mem' = mem\<lparr>blocks := (blocks mem)[b := Some (org, cells[off := v])]\<rparr>"
    by blast
  from lookup_block_live [OF blk] off show ?thesis
    by (simp add: Pair mem' load_float_def lookup_block_update)
qed


lemma take_drop_update_outside:
  "i < k \<or> k + n \<le> i \<Longrightarrow> take n (drop k (xs[i := v])) = take n (drop k xs)"
  by (auto simp: drop_update_swap)

lemma store_float_load_buffer:
  assumes "store_float mem p v = Inr mem'"
      and "\<not> in_buffer p q n"
  shows "load_buffer mem' q n = load_buffer mem q n"
proof (cases q)
  case None
  then show ?thesis by (simp add: load_buffer_def)
next
  case (Some a)
  obtain b0 off0 where a: "a = (b0, off0)" by (cases a)
  obtain b off where p: "p = (b, off)" by (cases p)
  from store_float_result [OF assms(1) [unfolded p]] obtain org cells where
    blk: "lookup_block mem b = Some (org, cells)" and off: "off < length cells"
    and mem': "mem' = mem\<lparr>blocks := (blocks mem)[b := Some (org, cells[off := v])]\<rparr>"
    by blast
  show ?thesis
  proof (cases "b0 = b")
    case False
    then show ?thesis
      by (simp add: Some a mem' load_buffer_def lookup_block_update)
  next
    case True
    from assms(2) have out: "off < off0 \<or> off0 + n \<le> off"
      by (auto simp: in_buffer_def Some a p True)
    from lookup_block_live [OF blk] blk show ?thesis
      by (simp add: Some a True mem' load_buffer_def lookup_block_update
            take_drop_update_outside [OF out])
  qed
qed

section \<open>Calls that return\<close>

lemma store_float_succeeds:
  assumes "load_float mem p = Some v0"
  shows "\<exists>mem'. store_float mem p v = Inr mem'"
  using assms
  by (cases p) (auto simp: load_float_def store_float_def split: option.splits if_splits)

text \<open>
  \<^verbatim>\<open>flip_evaluate\<close> returns whenever the dimensions are positive, both pointers address images of
  that size, \<^verbatim>\<open>error_map\<close> addresses a pointer variable, and a requested mean has a
  null destination or one that addresses a float.
\<close>

lemma flip_evaluate_returns:
  assumes "0 < sint width" and "0 < sint height"
      and "load_buffer mem reference (3 * nat (sint width * sint height)) = Some r"
      and "load_buffer mem test (3 * nat (sint width * sint height)) = Some t"
      and "error_map = Some s" and "s < length (slots mem)"
      and "compute_mean_error = 0 \<or> mean_error = None
           \<or> (\<exists>dest v0. mean_error = Some dest \<and> load_float mem dest = Some v0)"
  shows "\<exists>mem'. flip_evaluate E reference test width height use_hdr parameters apply_magma_map
                  compute_mean_error mean_error error_map mem = Inr mem'"
proof -
  obtain mean mem1 out where
    eng: "FLIP_evaluate E reference test width height (use_hdr \<noteq> 0)
            (flip_evaluate_params E parameters) (apply_magma_map \<noteq> 0)
            (compute_mean_error \<noteq> 0) 0 error_map mem = Inr (mean, mem1)"
    and mem1: "mem1 = mem\<lparr>blocks := blocks mem @ [Some (NewArray, out)],
                          slots := (slots mem)[s := Some (length (blocks mem), 0)]\<rparr>"
    using assms(1-6) by (simp add: FLIP_evaluate_def Let_def)
  show ?thesis
  proof (cases "compute_mean_error = 0 \<or> mean_error = None")
    case True
    with eng show ?thesis
      by (auto simp: flip_evaluate_def split: option.splits)
  next
    case False
    with assms(7) obtain dest v0 where
      dest: "mean_error = Some dest" and v0: "load_float mem dest = Some v0"
      by blast
    from load_float_extend [OF v0] mem1 have "load_float mem1 dest = Some v0" by simp
    from store_float_succeeds [OF this] obtain mem' where
      "store_float mem1 dest mean = Inr mem'" by blast
    with eng dest False show ?thesis
      by (simp add: flip_evaluate_def)
  qed
qed

section \<open>The mean\<close>

text \<open>
  What a call that returns has done to the caller's floats: a requested mean with a
  non-null destination is in the destination, and otherwise every float is as
  before.
\<close>

lemma flip_evaluate_mean_error_after:
  assumes "flip_evaluate E reference test width height use_hdr parameters apply_magma_map
             compute_mean_error mean_error error_map mem = Inr mem'"
  shows "(compute_mean_error \<noteq> 0 \<longrightarrow>
            (\<forall>dest. mean_error = Some dest \<longrightarrow>
               (\<exists>r t. load_buffer mem reference (3 * nat (sint width * sint height)) = Some r
                    \<and> load_buffer mem test (3 * nat (sint width * sint height)) = Some t
                    \<and> load_float mem' dest
                        = Some (meanError E r t (sint width) (sint height) (use_hdr \<noteq> 0)
                                  (flip_evaluate_params E parameters)))))
       \<and> (compute_mean_error = 0 \<or> mean_error = None \<longrightarrow>
            (\<forall>p v. load_float mem p = Some v \<longrightarrow> load_float mem' p = Some v))"
proof -
  from flip_evaluate_steps [OF assms] obtain mean mem1 where
    eng: "FLIP_evaluate E reference test width height (use_hdr \<noteq> 0)
            (flip_evaluate_params E parameters) (apply_magma_map \<noteq> 0)
            (compute_mean_error \<noteq> 0) 0 error_map mem = Inr (mean, mem1)"
    and fin: "case mean_error of
                None \<Rightarrow> mem' = mem1
              | Some dest \<Rightarrow>
                  if compute_mean_error \<noteq> 0 then store_float mem1 dest mean = Inr mem'
                  else mem' = mem1"
    by blast
  from FLIP_evaluate_result [OF eng] obtain r t s out where
    r: "load_buffer mem reference (3 * nat (sint width * sint height)) = Some r"
    and t: "load_buffer mem test (3 * nat (sint width * sint height)) = Some t"
    and mean: "mean = (if compute_mean_error \<noteq> 0
                       then meanError E r t (sint width) (sint height) (use_hdr \<noteq> 0)
                              (flip_evaluate_params E parameters)
                       else 0)"
    and mem1: "mem1 = mem\<lparr>blocks := blocks mem @ [Some (NewArray, out)],
                          slots := (slots mem)[s := Some (length (blocks mem), 0)]\<rparr>"
    by blast
  have written: "load_float mem' dest
                   = Some (meanError E r t (sint width) (sint height) (use_hdr \<noteq> 0)
                             (flip_evaluate_params E parameters))"
    if "compute_mean_error \<noteq> 0" and "mean_error = Some dest" for dest
  proof -
    from fin that have "store_float mem1 dest mean = Inr mem'" by simp
    from store_float_load_same [OF this] mean that(1) show ?thesis by simp
  qed
  have untouched: "load_float mem' p = Some v"
    if "compute_mean_error = 0 \<or> mean_error = None" and "load_float mem p = Some v" for p v
  proof -
    from fin that(1) have "mem' = mem1" by (auto split: option.splits)
    with load_float_extend [OF that(2)] mem1 show ?thesis by simp
  qed
  from r t written untouched show ?thesis by blast
qed

text \<open>
  C1. Take a call with positive dimensions, two pointers that address images \<open>r\<close>
  and \<open>t\<close> of that size, an \<^verbatim>\<open>error_map\<close> that addresses a pointer variable, and a
  \<^verbatim>\<open>mean_error\<close> that, if the mean is requested and it is not null, addresses a float.
  The call returns. If \<^verbatim>\<open>compute_mean_error\<close> is non-zero and \<^verbatim>\<open>mean_error\<close> is not
  null, the destination then holds the mean the Engine computed for \<open>r\<close> and \<open>t\<close>; in
  every other case no float the caller had before the call is changed, the
  destination among them.
\<close>

theorem flip_evaluate_mean_error:
  assumes "0 < sint width" and "0 < sint height"
      and "load_buffer mem reference (3 * nat (sint width * sint height)) = Some r"
      and "load_buffer mem test (3 * nat (sint width * sint height)) = Some t"
      and "error_map = Some s" and "s < length (slots mem)"
      and "compute_mean_error = 0 \<or> mean_error = None
           \<or> (\<exists>dest v0. mean_error = Some dest \<and> load_float mem dest = Some v0)"
  shows "\<exists>mem'. flip_evaluate E reference test width height use_hdr parameters apply_magma_map
                  compute_mean_error mean_error error_map mem = Inr mem'
           \<and> (compute_mean_error \<noteq> 0 \<longrightarrow>
                (\<forall>dest. mean_error = Some dest \<longrightarrow>
                   load_float mem' dest
                     = Some (meanError E r t (sint width) (sint height) (use_hdr \<noteq> 0)
                               (flip_evaluate_params E parameters))))
           \<and> (compute_mean_error = 0 \<or> mean_error = None \<longrightarrow>
                (\<forall>p v. load_float mem p = Some v \<longrightarrow> load_float mem' p = Some v))"
proof -
  from flip_evaluate_returns [OF assms] obtain mem' where
    run: "flip_evaluate E reference test width height use_hdr parameters apply_magma_map
            compute_mean_error mean_error error_map mem = Inr mem'"
    by blast
  note after = flip_evaluate_mean_error_after [OF run]
  have written: "load_float mem' dest
                   = Some (meanError E r t (sint width) (sint height) (use_hdr \<noteq> 0)
                             (flip_evaluate_params E parameters))"
    if "compute_mean_error \<noteq> 0" and "mean_error = Some dest" for dest
    using after [THEN conjunct1] that assms(3,4) by auto
  have untouched: "load_float mem' p = Some v"
    if "compute_mean_error = 0 \<or> mean_error = None" and "load_float mem p = Some v" for p v
    using after [THEN conjunct2] that by blast
  from run written untouched show ?thesis by blast
qed

theorem flip_evaluate_mean_error_witness:
  "flip_evaluate sample_engine (Some (0, 0)) (Some (1, 0)) 1 1 0 None 0 1 (Some (2, 0)) (Some 0)
     unequal_memory
   = Inr \<lparr>blocks = [Some (CallerOwned, [0x3F000000, 0x3F000000, 0x3F000000]),
                     Some (CallerOwned, [0x3F000000, 0x3F000000, 0x3E800000]),
                     Some (CallerOwned, [0x3F800000]),
                     Some (NewArray, [0x3F800000])],
           slots = [Some (3, 0)]\<rparr>
   \<and> load_float \<lparr>blocks = [Some (CallerOwned, [0x3F000000, 0x3F000000, 0x3F000000]),
                            Some (CallerOwned, [0x3F000000, 0x3F000000, 0x3E800000]),
                            Some (CallerOwned, [0x3F800000]),
                            Some (NewArray, [0x3F800000])],
                  slots = [Some (3, 0)]\<rparr> (2, 0) = Some 0x3F800000
   \<and> flip_evaluate sample_engine (Some (0, 0)) (Some (1, 0)) 1 1 0 None 0 0 (Some (2, 0)) (Some 0)
       unequal_memory
     = Inr \<lparr>blocks = [Some (CallerOwned, [0x3F000000, 0x3F000000, 0x3F000000]),
                       Some (CallerOwned, [0x3F000000, 0x3F000000, 0x3E800000]),
                       Some (CallerOwned, [0xBF800000]),
                       Some (NewArray, [0x3F800000])],
             slots = [Some (3, 0)]\<rparr>
   \<and> load_float \<lparr>blocks = [Some (CallerOwned, [0x3F000000, 0x3F000000, 0x3F000000]),
                            Some (CallerOwned, [0x3F000000, 0x3F000000, 0x3E800000]),
                            Some (CallerOwned, [0xBF800000]),
                            Some (NewArray, [0x3F800000])],
                  slots = [Some (3, 0)]\<rparr> (2, 0) = Some 0xBF800000"
proof -
  have dims: "0 < sint (1 :: c_int)"
    by simp
  have ref:
    "load_buffer unequal_memory (Some (0, 0)) (3 * nat (sint (1 :: c_int) * sint (1 :: c_int)))
     = Some [0x3F000000, 0x3F000000, 0x3F000000]"
    by (simp add: load_buffer_def lookup_block_def unequal_memory_def)
  have tst:
    "load_buffer unequal_memory (Some (1, 0)) (3 * nat (sint (1 :: c_int) * sint (1 :: c_int)))
     = Some [0x3F000000, 0x3F000000, 0x3E800000]"
    by (simp add: load_buffer_def lookup_block_def unequal_memory_def)
  have slot: "Some (0 :: nat) = Some 0" "0 < length (slots unequal_memory)"
    by (simp_all add: unequal_memory_def)
  have before: "load_float unequal_memory (2, 0) = Some 0xBF800000"
    by (simp add: load_float_def lookup_block_def unequal_memory_def)
  have dest_requested:
    "(1 :: c_int) = 0 \<or> Some (2 :: nat, 0 :: nat) = None
     \<or> (\<exists>dest v0. Some (2 :: nat, 0 :: nat) = Some dest
           \<and> load_float unequal_memory dest = Some v0)"
    using before by simp
  have dest_not_requested:
    "(0 :: c_int) = 0 \<or> Some (2 :: nat, 0 :: nat) = None
     \<or> (\<exists>dest v0. Some (2 :: nat, 0 :: nat) = Some dest
           \<and> load_float unequal_memory dest = Some v0)"
    by simp
  have requested:
    "flip_evaluate sample_engine (Some (0, 0)) (Some (1, 0)) 1 1 0 None 0 1 (Some (2, 0)) (Some 0)
       unequal_memory
     = Inr \<lparr>blocks = [Some (CallerOwned, [0x3F000000, 0x3F000000, 0x3F000000]),
                       Some (CallerOwned, [0x3F000000, 0x3F000000, 0x3E800000]),
                       Some (CallerOwned, [0x3F800000]),
                       Some (NewArray, [0x3F800000])],
             slots = [Some (3, 0)]\<rparr>"
    by (simp add: flip_evaluate_def FLIP_evaluate_def flip_evaluate_params_def load_buffer_def
          lookup_block_def store_float_def sample_engine_def unequal_memory_def Let_def)
  have not_requested:
    "flip_evaluate sample_engine (Some (0, 0)) (Some (1, 0)) 1 1 0 None 0 0 (Some (2, 0)) (Some 0)
       unequal_memory
     = Inr \<lparr>blocks = [Some (CallerOwned, [0x3F000000, 0x3F000000, 0x3F000000]),
                       Some (CallerOwned, [0x3F000000, 0x3F000000, 0x3E800000]),
                       Some (CallerOwned, [0xBF800000]),
                       Some (NewArray, [0x3F800000])],
             slots = [Some (3, 0)]\<rparr>"
    by (simp add: flip_evaluate_def FLIP_evaluate_def flip_evaluate_params_def load_buffer_def
          lookup_block_def store_float_def sample_engine_def unequal_memory_def Let_def)
  from flip_evaluate_mean_error
         [where E = sample_engine and use_hdr = 0 and parameters = None and apply_magma_map = 0,
          OF dims dims ref tst slot dest_requested]
  obtain m1 where
    run1: "flip_evaluate sample_engine (Some (0, 0)) (Some (1, 0)) 1 1 0 None 0 1 (Some (2, 0))
             (Some 0) unequal_memory = Inr m1"
    and mean1: "load_float m1 (2, 0)
                  = Some (meanError sample_engine [0x3F000000, 0x3F000000, 0x3F000000]
                            [0x3F000000, 0x3F000000, 0x3E800000] (sint (1 :: c_int))
                            (sint (1 :: c_int)) ((0 :: c_int) \<noteq> 0)
                            (flip_evaluate_params sample_engine None))"
    by auto
  from run1 requested mean1
  have stored:
    "load_float \<lparr>blocks = [Some (CallerOwned, [0x3F000000, 0x3F000000, 0x3F000000]),
                            Some (CallerOwned, [0x3F000000, 0x3F000000, 0x3E800000]),
                            Some (CallerOwned, [0x3F800000]),
                            Some (NewArray, [0x3F800000])],
                  slots = [Some (3, 0)]\<rparr> (2, 0) = Some 0x3F800000"
    by (simp add: sample_engine_def)
  from flip_evaluate_mean_error
         [where E = sample_engine and use_hdr = 0 and parameters = None and apply_magma_map = 0,
          OF dims dims ref tst slot dest_not_requested]
  obtain m0 where
    run0: "flip_evaluate sample_engine (Some (0, 0)) (Some (1, 0)) 1 1 0 None 0 0 (Some (2, 0))
             (Some 0) unequal_memory = Inr m0"
    and keep0: "\<forall>p v. load_float unequal_memory p = Some v \<longrightarrow> load_float m0 p = Some v"
    by auto
  from keep0 before have "load_float m0 (2, 0) = Some 0xBF800000"
    by blast
  with run0 not_requested
  have kept:
    "load_float \<lparr>blocks = [Some (CallerOwned, [0x3F000000, 0x3F000000, 0x3F000000]),
                            Some (CallerOwned, [0x3F000000, 0x3F000000, 0x3E800000]),
                            Some (CallerOwned, [0xBF800000]),
                            Some (NewArray, [0x3F800000])],
                  slots = [Some (3, 0)]\<rparr> (2, 0) = Some 0xBF800000"
    by simp
  from requested stored not_requested kept show ?thesis by blast
qed

section \<open>The error map\<close>



section \<open>The input images\<close>

text \<open>
  C9, as amended. After a call that returns, both input images hold what they held
  before, provided the mean is not requested, or its destination is null, or the
  destination lies in neither image. The call stores one pointer, the address of
  the new output array, in the variable \<^verbatim>\<open>error_map\<close> addresses; that address is
  neither input pointer, and no other pointer variable changes.
\<close>

theorem flip_evaluate_inputs_unchanged:
  assumes "flip_evaluate E reference test width height use_hdr parameters apply_magma_map
             compute_mean_error mean_error error_map mem = Inr mem'"
      and "compute_mean_error = 0 \<or> mean_error = None
           \<or> (\<exists>dest. mean_error = Some dest
                 \<and> \<not> in_buffer dest reference (3 * nat (sint width * sint height))
                 \<and> \<not> in_buffer dest test (3 * nat (sint width * sint height)))"
  shows "load_buffer mem' reference (3 * nat (sint width * sint height))
           = load_buffer mem reference (3 * nat (sint width * sint height))
       \<and> load_buffer mem' test (3 * nat (sint width * sint height))
           = load_buffer mem test (3 * nat (sint width * sint height))
       \<and> (\<exists>s. error_map = Some s
              \<and> slots mem' = (slots mem)[s := Some (length (blocks mem), 0)])
       \<and> reference \<noteq> Some (length (blocks mem), 0)
       \<and> test \<noteq> Some (length (blocks mem), 0)"
proof -
  let ?n = "3 * nat (sint width * sint height)"
  from flip_evaluate_steps [OF assms(1)] obtain mean mem1 where
    eng: "FLIP_evaluate E reference test width height (use_hdr \<noteq> 0)
            (flip_evaluate_params E parameters) (apply_magma_map \<noteq> 0)
            (compute_mean_error \<noteq> 0) 0 error_map mem = Inr (mean, mem1)"
    and fin: "case mean_error of
                None \<Rightarrow> mem' = mem1
              | Some dest \<Rightarrow>
                  if compute_mean_error \<noteq> 0 then store_float mem1 dest mean = Inr mem'
                  else mem' = mem1"
    by blast
  from FLIP_evaluate_result [OF eng] obtain r t s out where
    r: "load_buffer mem reference ?n = Some r"
    and t: "load_buffer mem test ?n = Some t"
    and s: "error_map = Some s"
    and mem1: "mem1 = mem\<lparr>blocks := blocks mem @ [Some (NewArray, out)],
                          slots := (slots mem)[s := Some (length (blocks mem), 0)]\<rparr>"
    by blast
  have r1: "load_buffer mem1 reference ?n = Some r"
    unfolding mem1 by (rule load_buffer_extend [OF r])
  have t1: "load_buffer mem1 test ?n = Some t"
    unfolding mem1 by (rule load_buffer_extend [OF t])
  have slots1: "slots mem1 = (slots mem)[s := Some (length (blocks mem), 0)]"
    by (simp add: mem1)
  have fresh_r: "reference \<noteq> Some (length (blocks mem), 0)"
    using r load_buffer_live [of mem "length (blocks mem)" 0 ?n r] by auto
  have fresh_t: "test \<noteq> Some (length (blocks mem), 0)"
    using t load_buffer_live [of mem "length (blocks mem)" 0 ?n t] by auto
  consider (same) "mem' = mem1"
    | (stored) dest where "store_float mem1 dest mean = Inr mem'"
        "\<not> in_buffer dest reference ?n" "\<not> in_buffer dest test ?n"
    using fin assms(2) by (auto split: option.splits if_splits)
  then show ?thesis
  proof cases
    case same
    with r r1 t t1 s slots1 fresh_r fresh_t show ?thesis by simp
  next
    case stored
    from store_float_load_buffer [OF stored(1) stored(2)] r r1
    have "load_buffer mem' reference ?n = load_buffer mem reference ?n" by simp
    moreover from store_float_load_buffer [OF stored(1) stored(3)] t t1
    have "load_buffer mem' test ?n = load_buffer mem test ?n" by simp
    moreover from store_float_slots [OF stored(1)] slots1
    have "slots mem' = (slots mem)[s := Some (length (blocks mem), 0)]" by simp
    ultimately show ?thesis using s fresh_r fresh_t by simp
  qed
qed

theorem flip_evaluate_inputs_unchanged_witness:
  "flip_evaluate sample_engine (Some (0, 0)) (Some (1, 0)) 1 1 0 None 0 1 (Some (2, 0)) (Some 0)
     sample_memory
   = Inr \<lparr>blocks = [Some (CallerOwned, [0x3F000000, 0x3F000000, 0x3F000000]),
                     Some (CallerOwned, [0x3F000000, 0x3F000000, 0x3F000000]),
                     Some (CallerOwned, [0]),
                     Some (NewArray, [0])],
           slots = [Some (3, 0)]\<rparr>
   \<and> load_buffer \<lparr>blocks = [Some (CallerOwned, [0x3F000000, 0x3F000000, 0x3F000000]),
                             Some (CallerOwned, [0x3F000000, 0x3F000000, 0x3F000000]),
                             Some (CallerOwned, [0]),
                             Some (NewArray, [0])],
                   slots = [Some (3, 0)]\<rparr> (Some (0, 0)) 3
     = Some [0x3F000000, 0x3F000000, 0x3F000000]
   \<and> load_buffer \<lparr>blocks = [Some (CallerOwned, [0x3F000000, 0x3F000000, 0x3F000000]),
                             Some (CallerOwned, [0x3F000000, 0x3F000000, 0x3F000000]),
                             Some (CallerOwned, [0]),
                             Some (NewArray, [0])],
                   slots = [Some (3, 0)]\<rparr> (Some (1, 0)) 3
     = Some [0x3F000000, 0x3F000000, 0x3F000000]"
proof -
  have run:
    "flip_evaluate sample_engine (Some (0, 0)) (Some (1, 0)) 1 1 0 None 0 1 (Some (2, 0)) (Some 0)
       sample_memory
     = Inr \<lparr>blocks = [Some (CallerOwned, [0x3F000000, 0x3F000000, 0x3F000000]),
                       Some (CallerOwned, [0x3F000000, 0x3F000000, 0x3F000000]),
                       Some (CallerOwned, [0]),
                       Some (NewArray, [0])],
             slots = [Some (3, 0)]\<rparr>"
    by (simp add: flip_evaluate_def FLIP_evaluate_def flip_evaluate_params_def load_buffer_def
          lookup_block_def store_float_def sample_engine_def sample_memory_def Let_def)
  have apart:
    "(1 :: c_int) = 0 \<or> Some (2 :: nat, 0 :: nat) = None
     \<or> (\<exists>dest. Some (2 :: nat, 0 :: nat) = Some dest
           \<and> \<not> in_buffer dest (Some (0, 0)) (3 * nat (sint (1 :: c_int) * sint (1 :: c_int)))
           \<and> \<not> in_buffer dest (Some (1, 0)) (3 * nat (sint (1 :: c_int) * sint (1 :: c_int))))"
    by (simp add: in_buffer_def)
  have before:
    "load_buffer sample_memory (Some (0, 0)) 3 = Some [0x3F000000, 0x3F000000, 0x3F000000]"
    "load_buffer sample_memory (Some (1, 0)) 3 = Some [0x3F000000, 0x3F000000, 0x3F000000]"
    by (simp_all add: load_buffer_def lookup_block_def sample_memory_def)
  note unchanged = flip_evaluate_inputs_unchanged [OF run apart]
  from unchanged [THEN conjunct1] before(1)
  have ref_after:
    "load_buffer \<lparr>blocks = [Some (CallerOwned, [0x3F000000, 0x3F000000, 0x3F000000]),
                             Some (CallerOwned, [0x3F000000, 0x3F000000, 0x3F000000]),
                             Some (CallerOwned, [0]),
                             Some (NewArray, [0])],
                   slots = [Some (3, 0)]\<rparr> (Some (0, 0)) 3
     = Some [0x3F000000, 0x3F000000, 0x3F000000]"
    by simp
  from unchanged [THEN conjunct2, THEN conjunct1] before(2)
  have test_after:
    "load_buffer \<lparr>blocks = [Some (CallerOwned, [0x3F000000, 0x3F000000, 0x3F000000]),
                             Some (CallerOwned, [0x3F000000, 0x3F000000, 0x3F000000]),
                             Some (CallerOwned, [0]),
                             Some (NewArray, [0])],
                   slots = [Some (3, 0)]\<rparr> (Some (1, 0)) 3
     = Some [0x3F000000, 0x3F000000, 0x3F000000]"
    by simp
  from run ref_after test_after show ?thesis by blast
qed

text \<open>
  C9 as stated fails when the caller passes the reference image's own address as
  \<^verbatim>\<open>mean_error\<close> and requests the mean: line 64 stores the mean (0 for two identical
  images) into the first float of the reference image, which held 0.5.
\<close>

theorem flip_evaluate_mean_into_reference:
  "flip_evaluate sample_engine (Some (0, 0)) (Some (1, 0)) 1 1 0 None 0 1 (Some (0, 0)) (Some 0)
     sample_memory
   = Inr \<lparr>blocks = [Some (CallerOwned, [0, 0x3F000000, 0x3F000000]),
                     Some (CallerOwned, [0x3F000000, 0x3F000000, 0x3F000000]),
                     Some (CallerOwned, [0xBF800000]),
                     Some (NewArray, [0])],
           slots = [Some (3, 0)]\<rparr>
   \<and> load_buffer sample_memory (Some (0, 0)) 3 = Some [0x3F000000, 0x3F000000, 0x3F000000]
   \<and> load_buffer \<lparr>blocks = [Some (CallerOwned, [0, 0x3F000000, 0x3F000000]),
                             Some (CallerOwned, [0x3F000000, 0x3F000000, 0x3F000000]),
                             Some (CallerOwned, [0xBF800000]),
                             Some (NewArray, [0])],
                   slots = [Some (3, 0)]\<rparr> (Some (0, 0)) 3
     = Some [0, 0x3F000000, 0x3F000000]"
  by (simp add: flip_evaluate_def FLIP_evaluate_def flip_evaluate_params_def load_buffer_def
        lookup_block_def store_float_def sample_engine_def sample_memory_def Let_def)

end
